theory Spec2Isabelle
  imports Main
begin

section \<open>Data model\<close>

text \<open>
  The repository is a FastAPI service: \<^verbatim>\<open>model.py\<close> declares the records, \<^verbatim>\<open>auth.py\<close>
  the password, token and dependency functions, \<^verbatim>\<open>main.py\<close> the endpoints.

  A Python \<^verbatim>\<open>str\<close> is a \<open>string\<close>; one \<open>char\<close> stands for one character of the
  Python string, so \<open>length\<close> is Python's \<^verbatim>\<open>len\<close>. Message literals are written
  without their accents.
\<close>

text \<open>
  \<^verbatim>\<open>class UsuarioBase(BaseModel)\<close> and the classes derived from it. The field
  \<^verbatim>\<open>id\<close> is written \<open>id'\<close>. \<open>Usuario\<close> is also a row of table \<^verbatim>\<open>usuarios\<close>.
\<close>

record UsuarioBase =
  username :: string
  email :: string

record UsuarioCreate = UsuarioBase +
  password :: string

record UsuarioResponse = UsuarioBase +
  id' :: int
  is_active :: bool

record Usuario = UsuarioBase +
  id' :: int
  hashed_password :: string
  is_active :: bool

text \<open>\<^verbatim>\<open>class LoginRequest(BaseModel)\<close> of \<^verbatim>\<open>main.py\<close>.\<close>

record LoginRequest =
  username :: string
  password :: string

text \<open>
  Exceptions are values. \<open>HTTPException\<close> carries the status code, the detail and the
  headers the source gives it (none is \<open>[]\<close>); \<open>Exception\<close> is an exception raised
  inside a library, by its message (\<^verbatim>\<open>str(e)\<close>). \<open>RequestValidationError\<close> is what FastAPI
  raises when a request body does not validate against its model, and
  \<open>MissingCredential\<close> what the \<^verbatim>\<open>HTTPBearer\<close> scheme raises.
\<close>

datatype exn =
    HTTPException nat string "(string \<times> string) list"
  | Exception string
  | RequestValidationError
  | MissingCredential

definition HTTP_400_BAD_REQUEST :: nat where
  "HTTP_400_BAD_REQUEST = 400"

definition HTTP_401_UNAUTHORIZED :: nat where
  "HTTP_401_UNAUTHORIZED = 401"

section \<open>Password utilities\<close>

text \<open>
  \<^verbatim>\<open>pwd_context = CryptContext(schemes=["bcrypt"], deprecated="auto")\<close> is an object of
  the passlib library, which is not part of the repository. It is a parameter of the
  model: its two methods, each of which either returns (\<open>Inr\<close>) or raises an exception
  of the library (\<open>Inl\<close>, with the message of the exception). Hashing draws a random
  salt, which is an argument here.
\<close>

record CryptContext =
  ctx_verify :: "string \<Rightarrow> string \<Rightarrow> string + bool"
  ctx_hash :: "string \<Rightarrow> string \<Rightarrow> string + string"

text \<open>
  \<^verbatim>\<open>def verify_password(plain_password, hashed_password):
      return pwd_context.verify(plain_password, hashed_password)\<close>
\<close>

definition verify_password :: "CryptContext \<Rightarrow> string \<Rightarrow> string \<Rightarrow> string + bool" where
  "verify_password pwd_context plain_password hashed =
     ctx_verify pwd_context plain_password hashed"

text \<open>
  \<^verbatim>\<open>def get_password_hash(password): return pwd_context.hash(password)\<close>
\<close>

definition get_password_hash :: "CryptContext \<Rightarrow> string \<Rightarrow> string \<Rightarrow> string + string" where
  "get_password_hash pwd_context salt passwd = ctx_hash pwd_context salt passwd"

section \<open>Database queries\<close>

text \<open>
  The state of the server: the table \<^verbatim>\<open>usuarios\<close> as the list of its rows,
  \<open>next_id\<close> the value the \<^verbatim>\<open>id\<close> column gives the next inserted row, and the
  lines written with \<^verbatim>\<open>logger\<close>, oldest first. Failures of the connection itself are
  outside the model.
\<close>

record server =
  usuarios :: "Usuario list"
  next_id :: int
  log :: "string list"

text \<open>
  \<^verbatim>\<open>SELECT id, username, email, hashed_password, is_active FROM usuarios WHERE username = %s\<close>
  followed by \<^verbatim>\<open>fetchone()\<close>: the first row with that username, or \<^verbatim>\<open>None\<close>.
\<close>

definition get_user_by_username :: "server \<Rightarrow> string \<Rightarrow> Usuario option" where
  "get_user_by_username db name =
     find (\<lambda>row. UsuarioBase.username row = name) (usuarios db)"

text \<open>
  \<^verbatim>\<open>def authenticate_user(username, password):
      user = get_user_by_username(username)
      if not user: return None
      if not verify_password(password, user.hashed_password): return None
      if not user.is_active: return None
      return user\<close>
  An exception of \<^verbatim>\<open>verify_password\<close> is not caught here.
\<close>

definition authenticate_user ::
  "CryptContext \<Rightarrow> server \<Rightarrow> string \<Rightarrow> string \<Rightarrow> exn + Usuario option" where
  "authenticate_user pwd_context db name passwd =
     (case get_user_by_username db name of
        None \<Rightarrow> Inr None
      | Some user \<Rightarrow>
          (case verify_password pwd_context passwd (hashed_password user) of
             Inl msg \<Rightarrow> Inl (Exception msg)
           | Inr ok \<Rightarrow>
               if \<not> ok then Inr None
               else if \<not> Usuario.is_active user then Inr None
               else Inr (Some user)))"

section \<open>Tokens: creation and validation\<close>

text \<open>
  A claim set is the Python \<^verbatim>\<open>dict\<close> that \<^verbatim>\<open>create_access_token\<close> receives and
  \<^verbatim>\<open>verify_token\<close> returns. The program writes the key \<^verbatim>\<open>"exp"\<close>, an instant, and
  reads the key \<^verbatim>\<open>"sub"\<close>, a string: the value under \<^verbatim>\<open>"exp"\<close> is the field
  \<open>exp_claim\<close>, and \<open>entries\<close> maps every other key to its value. Instants and
  durations are whole seconds.
\<close>

record 'v claims =
  exp_claim :: "int option"
  entries :: "string \<rightharpoonup> 'v"

text \<open>
  Dictionaries are mutable objects. The heap gives every address its dictionary;
  the addresses below \<open>fresh\<close> are the allocated ones.
\<close>

record 'v heap =
  objects :: "nat \<Rightarrow> 'v claims"
  fresh :: nat

text \<open>A dictionary literal: a new object.\<close>

definition new_dict :: "'v heap \<Rightarrow> 'v claims \<Rightarrow> nat \<times> 'v heap" where
  "new_dict h d = (fresh h, h\<lparr>objects := (objects h)(fresh h := d), fresh := Suc (fresh h)\<rparr>)"

text \<open>\<^verbatim>\<open>data.copy()\<close>: a new object with the same keys and values.\<close>

definition dict_copy :: "'v heap \<Rightarrow> nat \<Rightarrow> nat \<times> 'v heap" where
  "dict_copy h r = new_dict h (objects h r)"

text \<open>\<^verbatim>\<open>to_encode.update({"exp": expire})\<close>: the object at the address is changed in place.\<close>

definition dict_update_exp :: "'v heap \<Rightarrow> nat \<Rightarrow> int \<Rightarrow> 'v heap" where
  "dict_update_exp h r expire =
     h\<lparr>objects := (objects h)(r := (objects h r)\<lparr>exp_claim := Some expire\<rparr>)\<rparr>"

text \<open>
  The configuration read from the environment when \<^verbatim>\<open>auth.py\<close> is loaded, and the
  constant \<^verbatim>\<open>ALGORITHM = "HS256"\<close>.
\<close>

record config =
  SECRET_KEY :: string
  ACCESS_TOKEN_EXPIRE_MINUTES :: int

definition ALGORITHM :: string where
  "ALGORITHM = ''HS256''"

text \<open>\<^verbatim>\<open>timedelta(minutes=m)\<close>, in seconds.\<close>

definition timedelta_minutes :: "int \<Rightarrow> int" where
  "timedelta_minutes m = 60 * m"

text \<open>
  The JWT library (python-jose) is not part of the repository. A token is modelled by
  what the specification says of it: a string that is no token at all, or an algorithm
  name, a claim set and the key its signature was made with.
\<close>

datatype 'v token = Garbage string | JWT string "'v claims" string

text \<open>The two failures of the token codec; both are a \<^verbatim>\<open>JWTError\<close> for Python.\<close>

datatype JWTError = InvalidToken | ExpiredToken

definition jwt_encode :: "'v claims \<Rightarrow> string \<Rightarrow> string \<Rightarrow> 'v token" where
  \<comment> \<open>Modelled from the spec: \<^verbatim>\<open>jwt.encode\<close> of python-jose, which is not in the
      repository. Section 4.2: the claim set is serialized and signed with the key using
      the algorithm.\<close>
  "jwt_encode to_encode key algorithm = JWT algorithm to_encode key"

definition jwt_decode :: "int \<Rightarrow> 'v token \<Rightarrow> string \<Rightarrow> string list \<Rightarrow> JWTError + 'v claims" where
  \<comment> \<open>Modelled from the spec: \<^verbatim>\<open>jwt.decode\<close> of python-jose, which is not in the
      repository. Section 4.2: fails with InvalidToken if the structure is malformed, the
      algorithm does not match the expected one or the signature does not verify against
      the key; fails with ExpiredToken if the current time is at or after the claim
      expiration; on success returns the claim set. The first argument is the clock.\<close>
  "jwt_decode now tok key algorithms =
     (case tok of
        Garbage s \<Rightarrow> Inl InvalidToken
      | JWT alg payload signing_key \<Rightarrow>
          if alg \<notin> set algorithms then Inl InvalidToken
          else if signing_key \<noteq> key then Inl InvalidToken
          else (case exp_claim payload of
                  None \<Rightarrow> Inr payload
                | Some e \<Rightarrow> if e \<le> now then Inl ExpiredToken else Inr payload))"

text \<open>
  \<^verbatim>\<open>expire = datetime.utcnow() + (
      expires_delta if expires_delta else timedelta(minutes=ACCESS_TOKEN_EXPIRE_MINUTES))\<close>
  An absent duration and the zero duration are both false for Python.
\<close>

definition expire :: "config \<Rightarrow> int \<Rightarrow> int option \<Rightarrow> int" where
  "expire cfg now expires_delta =
     now + (case expires_delta of
              None \<Rightarrow> timedelta_minutes (ACCESS_TOKEN_EXPIRE_MINUTES cfg)
            | Some delta \<Rightarrow>
                if delta \<noteq> 0 then delta
                else timedelta_minutes (ACCESS_TOKEN_EXPIRE_MINUTES cfg))"

text \<open>
  \<^verbatim>\<open>def create_access_token(data, expires_delta=None):
      to_encode = data.copy()
      expire = ...
      to_encode.update({"exp": expire})
      return jwt.encode(to_encode, SECRET_KEY, algorithm=ALGORITHM)\<close>
  The argument \<open>data\<close> is the address of the caller's dictionary; the result is the
  token and the heap after the call.
\<close>

definition create_access_token ::
  "config \<Rightarrow> int \<Rightarrow> 'v heap \<Rightarrow> nat \<Rightarrow> int option \<Rightarrow> 'v token \<times> 'v heap" where
  "create_access_token cfg now h data expires_delta =
     (let (to_encode, h1) = dict_copy h data;
          h2 = dict_update_exp h1 to_encode (expire cfg now expires_delta)
      in (jwt_encode (objects h2 to_encode) (SECRET_KEY cfg) ALGORITHM, h2))"

text \<open>
  \<^verbatim>\<open>def verify_token(token):
      try:
          payload = jwt.decode(token, SECRET_KEY, algorithms=[ALGORITHM])
          return payload
      except JWTError:
          raise HTTPException(status_code=status.HTTP_401_UNAUTHORIZED,
                              detail="Token invalido o expirado",
                              headers={"WWW-Authenticate": "Bearer"})\<close>
\<close>

definition verify_token :: "config \<Rightarrow> int \<Rightarrow> 'v token \<Rightarrow> exn + 'v claims" where
  "verify_token cfg now tok =
     (case jwt_decode now tok (SECRET_KEY cfg) [ALGORITHM] of
        Inr payload \<Rightarrow> Inr payload
      | Inl e \<Rightarrow>
          Inl (HTTPException HTTP_401_UNAUTHORIZED ''Token invalido o expirado''
                 [(''WWW-Authenticate'', ''Bearer'')]))"

section \<open>FastAPI dependencies\<close>

text \<open>
  The \<^verbatim>\<open>Authorization\<close> header of a request: absent, present but not the word
  \<^verbatim>\<open>Bearer\<close> followed by a credential, or \<^verbatim>\<open>Bearer <token>\<close>.
\<close>

datatype 'v authorization = Absent | Unparsable string | Bearer "'v token"

text \<open>\<^verbatim>\<open>HTTPAuthorizationCredentials\<close>: what the \<^verbatim>\<open>HTTPBearer\<close> scheme hands on.\<close>

record 'v HTTPAuthorizationCredentials =
  scheme :: string
  credentials :: "'v token"

definition HTTPBearer :: "'v authorization \<Rightarrow> exn + 'v HTTPAuthorizationCredentials" where
  \<comment> \<open>Modelled from the spec: the \<^verbatim>\<open>HTTPBearer\<close> scheme of FastAPI
      (\<^verbatim>\<open>oauth2_scheme = HTTPBearer()\<close>), which is not in the repository. Section 4.4:
      extract the token string, fail with MissingCredential if the header is absent or
      malformed.\<close>
  "HTTPBearer header =
     (case header of
        Absent \<Rightarrow> Inl MissingCredential
      | Unparsable s \<Rightarrow> Inl MissingCredential
      | Bearer tok \<Rightarrow> Inr \<lparr>scheme = ''Bearer'', credentials = tok\<rparr>)"

definition Depends :: "exn + 'a \<Rightarrow> ('a \<Rightarrow> exn + 'b) \<Rightarrow> exn + 'b" where
  \<comment> \<open>Modelled from the spec: \<^verbatim>\<open>Depends\<close> of FastAPI, which is not in the repository.
      Section 7: a failure raised by a dependency ends the request before the function
      that declares the dependency runs; otherwise the function receives its value.\<close>
  "Depends dependency f = (case dependency of Inl e \<Rightarrow> Inl e | Inr x \<Rightarrow> f x)"

text \<open>The detail \<^verbatim>\<open>"Token invalido: no contiene 'sub'"\<close>, with its two quote characters.\<close>

definition detail_no_sub :: string where
  "detail_no_sub = ''Token invalido: no contiene '' @ [CHR 0x27] @ ''sub'' @ [CHR 0x27]"

text \<open>
  \<^verbatim>\<open>async def get_current_user(token_data = Depends(oauth2_scheme)):
      token = token_data.credentials
      payload = verify_token(token)
      username = payload.get("sub")
      if username is None:
          raise HTTPException(status_code=status.HTTP_401_UNAUTHORIZED,
                              detail="Token invalido: no contiene 'sub'")
      user = get_user_by_username(username)
      if user is None:
          raise HTTPException(status_code=status.HTTP_401_UNAUTHORIZED,
                              detail="Usuario no encontrado")
      return user\<close>
\<close>

definition get_current_user ::
  "config \<Rightarrow> server \<Rightarrow> int \<Rightarrow> string HTTPAuthorizationCredentials \<Rightarrow> exn + Usuario" where
  "get_current_user cfg db now token_data =
     (let tok = credentials token_data in
      case verify_token cfg now tok of
        Inl e \<Rightarrow> Inl e
      | Inr payload \<Rightarrow>
          (case entries payload ''sub'' of
             None \<Rightarrow> Inl (HTTPException HTTP_401_UNAUTHORIZED detail_no_sub [])
           | Some name \<Rightarrow>
               (case get_user_by_username db name of
                  None \<Rightarrow> Inl (HTTPException HTTP_401_UNAUTHORIZED ''Usuario no encontrado'' [])
                | Some user \<Rightarrow> Inr user)))"

text \<open>
  \<^verbatim>\<open>async def get_current_active_user(current_user = Depends(get_current_user)):
      if not current_user.is_active:
          raise HTTPException(status_code=400, detail="Usuario inactivo")
      return current_user\<close>
\<close>

definition get_current_active_user :: "Usuario \<Rightarrow> exn + Usuario" where
  "get_current_active_user current_user =
     (if \<not> Usuario.is_active current_user
      then Inl (HTTPException 400 ''Usuario inactivo'' [])
      else Inr current_user)"

text \<open>
  The chain \<^verbatim>\<open>Depends(get_current_active_user)\<close> of a protected endpoint, resolved for
  a request with the given \<^verbatim>\<open>Authorization\<close> header.
\<close>

definition current_active_user ::
  "config \<Rightarrow> server \<Rightarrow> int \<Rightarrow> string authorization \<Rightarrow> exn + Usuario" where
  "current_active_user cfg db now header =
     Depends (Depends (HTTPBearer header) (get_current_user cfg db now))
       get_current_active_user"

text \<open>
  A protected endpoint: a function of \<^verbatim>\<open>main.py\<close> with the parameter
  \<^verbatim>\<open>current_user: Usuario = Depends(get_current_active_user)\<close>. Its body is the
  handler, which may change the state of the server.
\<close>

definition protected ::
  "config \<Rightarrow> int \<Rightarrow> (Usuario \<Rightarrow> server \<Rightarrow> (exn + 'r) \<times> server) \<Rightarrow>
   string authorization \<Rightarrow> server \<Rightarrow> (exn + 'r) \<times> server" where
  \<comment> \<open>Modelled from the spec: how FastAPI, which is not in the repository, calls a
      function with a dependency. Section 7: an authorization failure ends the request
      before any protected handler logic runs.\<close>
  "protected cfg now handler header db =
     (case current_active_user cfg db now header of
        Inl e \<Rightarrow> (Inl e, db)
      | Inr current_user \<Rightarrow> handler current_user db)"

section \<open>Authentication endpoints\<close>

text \<open>\<^verbatim>\<open>logger.info(line)\<close>, \<^verbatim>\<open>logger.warning(line)\<close>, \<^verbatim>\<open>logger.error(line)\<close>.\<close>

definition logger :: "server \<Rightarrow> string \<Rightarrow> server" where
  "logger db line = db\<lparr>log := log db @ [line]\<rparr>"

text \<open>
  \<^verbatim>\<open>password: str = Field(..., min_length=6)\<close> of \<^verbatim>\<open>UsuarioCreate\<close>: the validation
  FastAPI runs on the body of a request before it calls \<^verbatim>\<open>register(usuario: UsuarioCreate)\<close>.
\<close>

definition UsuarioCreate_validate :: "UsuarioCreate \<Rightarrow> exn + UsuarioCreate" where
  "UsuarioCreate_validate body =
     (if length (UsuarioCreate.password body) < 6 then Inl RequestValidationError
      else Inr body)"

text \<open>
  \<^verbatim>\<open>def register(usuario: UsuarioCreate)\<close> of \<^verbatim>\<open>main.py\<close>: log, look for a row with
  the username or the email, hash the password, insert the row, commit, log, answer.
  The \<^verbatim>\<open>HTTPException\<close> of a duplicate is raised again as it is; an exception of the
  password library goes through \<^verbatim>\<open>handle_db_exception\<close>, which logs it and raises
  status 500. Nothing is written to the table before the commit, so a rollback leaves
  the table as it was.
\<close>

definition register ::
  "CryptContext \<Rightarrow> string \<Rightarrow> UsuarioCreate \<Rightarrow> server \<Rightarrow> (exn + UsuarioResponse) \<times> server" where
  "register pwd_context salt usuario db =
     (let db1 = logger db (''Registrando usuario: '' @ UsuarioBase.username usuario) in
      if list_ex (\<lambda>row. UsuarioBase.username row = UsuarioBase.username usuario
                       \<or> UsuarioBase.email row = UsuarioBase.email usuario) (usuarios db1)
      then (Inl (HTTPException HTTP_400_BAD_REQUEST
                   ''El usuario o email ya esta registrado'' []), db1)
      else
        (case get_password_hash pwd_context salt (UsuarioCreate.password usuario) of
           Inl msg \<Rightarrow>
             (Inl (HTTPException 500 (''Error interno: '' @ msg) []),
              logger db1 (''Error desconocido en register: '' @ msg))
         | Inr hashed \<Rightarrow>
             (let user_id = next_id db1;
                  row = \<lparr>UsuarioBase.username = UsuarioBase.username usuario,
                         email = UsuarioBase.email usuario,
                         Usuario.id' = user_id, hashed_password = hashed,
                         Usuario.is_active = True\<rparr>;
                  db2 = db1\<lparr>usuarios := usuarios db1 @ [row], next_id := next_id db1 + 1\<rparr>;
                  db3 = logger db2 (''Usuario '' @ UsuarioBase.username usuario
                                      @ '' registrado exitosamente'')
              in (Inr \<lparr>UsuarioBase.username = UsuarioBase.username usuario,
                       email = UsuarioBase.email usuario,
                       UsuarioResponse.id' = user_id,
                       UsuarioResponse.is_active = True\<rparr>, db3))))"

text \<open>\<^verbatim>\<open>@app.post("/register")\<close>: the public interface, validation first.\<close>

definition post_register ::
  "CryptContext \<Rightarrow> string \<Rightarrow> UsuarioCreate \<Rightarrow> server \<Rightarrow> (exn + UsuarioResponse) \<times> server" where
  "post_register pwd_context salt body db =
     (case UsuarioCreate_validate body of
        Inl e \<Rightarrow> (Inl e, db)
      | Inr usuario \<Rightarrow> register pwd_context salt usuario db)"

text \<open>\<^verbatim>\<open>class Token(BaseModel)\<close>: the answer of \<^verbatim>\<open>/login\<close>.\<close>

record 'v Token =
  access_token :: "'v token"
  token_type :: string

text \<open>
  \<^verbatim>\<open>def login(data: LoginRequest):
      logger.info(f"Intento de login para usuario: {data.username}")
      user = authenticate_user(data.username, data.password)
      if not user:
          logger.warning(f"Login fallido para usuario: {data.username}")
          raise HTTPException(status_code=status.HTTP_401_UNAUTHORIZED,
                              detail="Usuario o contrasena incorrectos")
      access_token_expires = timedelta(minutes=ACCESS_TOKEN_EXPIRE_MINUTES)
      access_token = create_access_token(data={"sub": user.username},
                                         expires_delta=access_token_expires)
      logger.info(f"Login exitoso para usuario: {data.username}")
      return {"access_token": access_token, "token_type": "bearer"}\<close>
  The dictionary literal is an object of the call alone: it is allocated in a heap of
  its own.
\<close>

definition login ::
  "config \<Rightarrow> CryptContext \<Rightarrow> int \<Rightarrow> LoginRequest \<Rightarrow> server \<Rightarrow>
   (exn + string Token) \<times> server" where
  "login cfg pwd_context now data db =
     (let db1 = logger db (''Intento de login para usuario: '' @ LoginRequest.username data) in
      case authenticate_user pwd_context db1 (LoginRequest.username data)
             (LoginRequest.password data) of
        Inl e \<Rightarrow> (Inl e, db1)
      | Inr None \<Rightarrow>
          (Inl (HTTPException HTTP_401_UNAUTHORIZED ''Usuario o contrasena incorrectos'' []),
           logger db1 (''Login fallido para usuario: '' @ LoginRequest.username data))
      | Inr (Some user) \<Rightarrow>
          (let access_token_expires = timedelta_minutes (ACCESS_TOKEN_EXPIRE_MINUTES cfg);
               (d, h) = new_dict \<lparr>objects = (\<lambda>r. \<lparr>exp_claim = None, entries = Map.empty\<rparr>),
                                  fresh = 0\<rparr>
                          \<lparr>exp_claim = None,
                           entries = [''sub'' \<mapsto> UsuarioBase.username user]\<rparr>;
               tok = fst (create_access_token cfg now h d (Some access_token_expires))
           in (Inr \<lparr>access_token = tok, token_type = ''bearer''\<rparr>,
               logger db1 (''Login exitoso para usuario: '' @ LoginRequest.username data))))"

text \<open>
  \<^verbatim>\<open>@app.get("/me")
  def get_current_user_info(current_user = Depends(get_current_active_user))\<close>
\<close>

definition get_current_user_info :: "Usuario \<Rightarrow> server \<Rightarrow> (exn + UsuarioResponse) \<times> server" where
  "get_current_user_info current_user db =
     (Inr \<lparr>UsuarioBase.username = UsuarioBase.username current_user,
           email = UsuarioBase.email current_user,
           UsuarioResponse.id' = Usuario.id' current_user,
           UsuarioResponse.is_active = Usuario.is_active current_user\<rparr>, db)"

section \<open>Example instances\<close>

text \<open>
  Concrete values on which the theorems below are evaluated. The password context
  identifies a hash string by the prefix \<^verbatim>\<open>$2b$\<close> of the bcrypt scheme and raises on
  any other string, as \<^verbatim>\<open>CryptContext.verify\<close> of passlib does with a hash string that
  none of its schemes identifies (\<^verbatim>\<open>UnknownHashError: hash could not be identified\<close>);
  what it does with an identified string is a toy: the password follows the prefix and
  two characters of salt.
\<close>

definition example_context :: CryptContext where
  "example_context =
     \<lparr>ctx_verify = (\<lambda>secret h. if take 4 h = ''$2b$'' then Inr (drop 6 h = secret)
                                else Inl ''hash could not be identified''),
      ctx_hash = (\<lambda>salt secret. Inr (''$2b$'' @ take 2 (salt @ ''..'') @ secret))\<rparr>"

definition alice :: Usuario where
  "alice = \<lparr>UsuarioBase.username = ''alice'', email = ''alice@example.org'', Usuario.id' = 1,
            hashed_password = ''$2b$zzsecret1'', Usuario.is_active = True\<rparr>"

definition bob :: Usuario where
  "bob = \<lparr>UsuarioBase.username = ''bob'', email = ''bob@example.org'', Usuario.id' = 2,
            hashed_password = ''plaintext'', Usuario.is_active = True\<rparr>"

definition example_server :: server where
  "example_server = \<lparr>usuarios = [alice, bob], next_id = 3, log = []\<rparr>"

definition deactivated_server :: server where
  "deactivated_server =
     \<lparr>usuarios = [alice\<lparr>Usuario.is_active := False\<rparr>, bob], next_id = 3, log = []\<rparr>"

definition example_config :: config where
  "example_config = \<lparr>SECRET_KEY = ''k1'', ACCESS_TOKEN_EXPIRE_MINUTES = 30\<rparr>"

definition rotated_config :: config where
  "rotated_config = \<lparr>SECRET_KEY = ''k2'', ACCESS_TOKEN_EXPIRE_MINUTES = 30\<rparr>"

definition example_token :: "string token" where
  "example_token = JWT ''HS256'' \<lparr>exp_claim = Some 2800, entries = [''sub'' \<mapsto> ''alice'']\<rparr> ''k1''"

definition example_heap :: "string heap" where
  "example_heap = \<lparr>objects = (\<lambda>r. \<lparr>exp_claim = None, entries = [''sub'' \<mapsto> ''alice'']\<rparr>), fresh = 1\<rparr>"

definition short_body :: UsuarioCreate where
  "short_body = \<lparr>UsuarioBase.username = ''carol'', email = ''carol@example.org'',
                  UsuarioCreate.password = ''12345''\<rparr>"

definition alice_login :: LoginRequest where
  "alice_login = \<lparr>LoginRequest.username = ''alice'', password = ''secret1''\<rparr>"

section \<open>Auxiliary facts\<close>

lemma get_user_by_username_name:
  "get_user_by_username db name = Some u \<Longrightarrow> UsuarioBase.username u = name"
  by (auto simp: get_user_by_username_def find_Some_iff)

lemma verify_token_Inl:
  "verify_token cfg now tok = Inl e \<Longrightarrow>
   e = HTTPException 401 ''Token invalido o expirado'' [(''WWW-Authenticate'', ''Bearer'')]"
  by (auto simp: verify_token_def HTTP_401_UNAUTHORIZED_def split: sum.splits)

lemma verify_token_JWT:
  "verify_token cfg now (JWT alg payload k) =
     (if alg = ALGORITHM \<and> k = SECRET_KEY cfg \<and> (\<forall>e. exp_claim payload = Some e \<longrightarrow> now < e)
      then Inr payload
      else Inl (HTTPException 401 ''Token invalido o expirado'' [(''WWW-Authenticate'', ''Bearer'')]))"
  by (auto simp: verify_token_def jwt_decode_def HTTP_401_UNAUTHORIZED_def split: option.splits)

lemma current_active_user_Bearer:
  "current_active_user cfg db now (Bearer tok) =
     (case verify_token cfg now tok of
        Inl e \<Rightarrow> Inl e
      | Inr payload \<Rightarrow>
          (case entries payload ''sub'' of
             None \<Rightarrow> Inl (HTTPException 401 detail_no_sub [])
           | Some name \<Rightarrow>
               (case get_user_by_username db name of
                  None \<Rightarrow> Inl (HTTPException 401 ''Usuario no encontrado'' [])
                | Some user \<Rightarrow>
                    if Usuario.is_active user then Inr user
                    else Inl (HTTPException 400 ''Usuario inactivo'' []))))"
  by (simp add: current_active_user_def Depends_def HTTPBearer_def get_current_user_def
      get_current_active_user_def HTTP_401_UNAUTHORIZED_def split: sum.splits option.splits)

lemma create_access_token_token:
  "fst (create_access_token cfg now h data ttl) =
     JWT ALGORITHM ((objects h data)\<lparr>exp_claim := Some (expire cfg now ttl)\<rparr>) (SECRET_KEY cfg)"
  by (simp add: create_access_token_def dict_copy_def new_dict_def dict_update_exp_def
      jwt_encode_def Let_def)

lemma create_access_token_heap:
  "snd (create_access_token cfg now h data ttl) =
     h\<lparr>objects := (objects h)(fresh h := (objects h data)\<lparr>exp_claim := Some (expire cfg now ttl)\<rparr>),
       fresh := Suc (fresh h)\<rparr>"
  by (simp add: create_access_token_def dict_copy_def new_dict_def dict_update_exp_def Let_def)

lemma post_register_valid:
  "6 \<le> length (UsuarioCreate.password body) \<Longrightarrow>
   post_register ctx salt body db = register ctx salt body db"
  by (simp add: post_register_def UsuarioCreate_validate_def)

lemma expire_login:
  "expire cfg now (Some (timedelta_minutes (ACCESS_TOKEN_EXPIRE_MINUTES cfg))) =
     now + timedelta_minutes (ACCESS_TOKEN_EXPIRE_MINUTES cfg)"
  by (simp add: expire_def)

lemma login_Inr:
  "login cfg ctx now data db = (Inr t, db1) \<Longrightarrow>
   (\<exists>user. authenticate_user ctx (logger db (''Intento de login para usuario: '' @ LoginRequest.username data)) (LoginRequest.username data) (LoginRequest.password data) = Inr (Some user)) \<and>
   access_token t = JWT ALGORITHM
       \<lparr>exp_claim = Some (now + timedelta_minutes (ACCESS_TOKEN_EXPIRE_MINUTES cfg)),
        entries = [''sub'' \<mapsto> LoginRequest.username data]\<rparr> (SECRET_KEY cfg)"
  apply (simp add: login_def Let_def split: sum.splits option.splits prod.splits)
  apply (auto simp: new_dict_def create_access_token_token expire_login authenticate_user_def dest!: get_user_by_username_name split: option.splits sum.splits if_splits)
  done

section \<open>The authenticator\<close>

text \<open>
  \<^verbatim>\<open>authenticate_user\<close> for a user whose stored hash the password context does not
  identify: the lookup finds the row, the password check raises, and the exception
  leaves the authenticator. Neither the user nor \<^verbatim>\<open>None\<close> is returned.
\<close>

theorem authenticate_user_raises:
  "authenticate_user example_context example_server ''bob'' ''secret1'' =
     Inl (Exception ''hash could not be identified'')"
  by (simp add: authenticate_user_def get_user_by_username_def verify_password_def
      example_server_def example_context_def alice_def bob_def)

text \<open>
  Claim C1, as the program has it. \<^verbatim>\<open>authenticate_user(username, password)\<close> returns
  the stored user exactly when the lookup finds a user with that username, the password
  check returns true for that user's stored hash and the user is active. For an unknown
  username it returns \<^verbatim>\<open>None\<close> and raises nothing; when the password check returns
  false, or returns true for an inactive user, it returns \<^verbatim>\<open>None\<close> as well: the three
  rejections are the same value. The authenticator has no exception handling of its own:
  it raises exactly when the password check raises on the stored hash of a found user,
  and then passes that exception on.
\<close>

theorem authenticate_user_correct:
  "((authenticate_user ctx db name passwd = Inr (Some usr)) =
      (get_user_by_username db name = Some usr \<and>
       verify_password ctx passwd (hashed_password usr) = Inr True \<and>
       Usuario.is_active usr)) \<and>
   (get_user_by_username db name = None \<longrightarrow> authenticate_user ctx db name passwd = Inr None) \<and>
   (\<forall>u ok. get_user_by_username db name = Some u \<and>
       verify_password ctx passwd (hashed_password u) = Inr ok \<and>
       \<not> (ok \<and> Usuario.is_active u) \<longrightarrow>
       authenticate_user ctx db name passwd = Inr None) \<and>
   (\<forall>e. (authenticate_user ctx db name passwd = Inl e) =
      (\<exists>u msg. get_user_by_username db name = Some u \<and>
         verify_password ctx passwd (hashed_password u) = Inl msg \<and> e = Exception msg))"
  by (auto simp: authenticate_user_def split: option.splits sum.splits)

theorem authenticate_user_correct_witness:
  "authenticate_user example_context example_server ''alice'' ''secret1'' = Inr (Some alice) \<and>
   authenticate_user example_context example_server ''carol'' ''secret1'' = Inr None \<and>
   authenticate_user example_context example_server ''alice'' ''wrong'' = Inr None"
proof -
  have a: "get_user_by_username example_server ''alice'' = Some alice"
    by (simp add: get_user_by_username_def example_server_def alice_def bob_def)
  have v: "verify_password example_context ''secret1'' (hashed_password alice) = Inr True"
    by (simp add: verify_password_def example_context_def alice_def)
  have act: "Usuario.is_active alice" by (simp add: alice_def)
  have c: "get_user_by_username example_server ''carol'' = None"
    by (simp add: get_user_by_username_def example_server_def alice_def bob_def)
  have w: "verify_password example_context ''wrong'' (hashed_password alice) = Inr False"
    by (simp add: verify_password_def example_context_def alice_def)
  from authenticate_user_correct [of example_context example_server "''alice''" "''secret1''" alice] a v act
  have 1: "authenticate_user example_context example_server ''alice'' ''secret1'' = Inr (Some alice)"
    by simp
  from authenticate_user_correct [of example_context example_server "''carol''" "''secret1''" alice] c
  have 2: "authenticate_user example_context example_server ''carol'' ''secret1'' = Inr None"
    by simp
  from authenticate_user_correct [of example_context example_server "''alice''" "''wrong''" alice] a w
  have 3: "authenticate_user example_context example_server ''alice'' ''wrong'' = Inr None"
    by blast
  from 1 2 3 show ?thesis by simp
qed

section \<open>The authorization chain\<close>

text \<open>
  Claim C2. A protected request is checked in this order, and fails at the first check
  that does not pass: the bearer token is extracted (\<open>MissingCredential\<close> if the header
  is absent or malformed); the token is validated (status 401, "Token invalido o
  expirado", for an invalid and for an expired token); the subject is read (status 401,
  "Token invalido: no contiene 'sub'", if absent); the user is looked up by the subject
  (status 401, "Usuario no encontrado", if absent); the active flag is checked (status
  400, "Usuario inactivo", if false). The user is yielded exactly when all checks pass,
  and on any failure the handler of the protected endpoint does not run: the request
  ends with that failure and the state of the server is unchanged.
\<close>

theorem authorization_order:
  "(header = Absent \<or> (\<exists>s. header = Unparsable s) \<longrightarrow>
      current_active_user cfg db now header = Inl MissingCredential) \<and>
   (\<forall>tok e. header = Bearer tok \<and> verify_token cfg now tok = Inl e \<longrightarrow>
      current_active_user cfg db now header = Inl e \<and>
      e = HTTPException 401 ''Token invalido o expirado'' [(''WWW-Authenticate'', ''Bearer'')]) \<and>
   (\<forall>tok payload. header = Bearer tok \<and> verify_token cfg now tok = Inr payload \<and>
      entries payload ''sub'' = None \<longrightarrow>
      current_active_user cfg db now header = Inl (HTTPException 401 detail_no_sub [])) \<and>
   (\<forall>tok payload name. header = Bearer tok \<and> verify_token cfg now tok = Inr payload \<and>
      entries payload ''sub'' = Some name \<and> get_user_by_username db name = None \<longrightarrow>
      current_active_user cfg db now header =
        Inl (HTTPException 401 ''Usuario no encontrado'' [])) \<and>
   (\<forall>tok payload name user. header = Bearer tok \<and> verify_token cfg now tok = Inr payload \<and>
      entries payload ''sub'' = Some name \<and> get_user_by_username db name = Some user \<and>
      \<not> Usuario.is_active user \<longrightarrow>
      current_active_user cfg db now header = Inl (HTTPException 400 ''Usuario inactivo'' [])) \<and>
   (\<forall>user. (current_active_user cfg db now header = Inr user) =
      (\<exists>tok payload name. header = Bearer tok \<and> verify_token cfg now tok = Inr payload \<and>
         entries payload ''sub'' = Some name \<and> get_user_by_username db name = Some user \<and>
         Usuario.is_active user)) \<and>
   (\<forall>e (handler :: Usuario \<Rightarrow> server \<Rightarrow> (exn + 'r) \<times> server).
      current_active_user cfg db now header = Inl e \<longrightarrow>
      protected cfg now handler header db = (Inl e, db))"
proof (intro conjI allI impI)
  assume "header = Absent \<or> (\<exists>s. header = Unparsable s)"
  then show "current_active_user cfg db now header = Inl MissingCredential"
    by (auto simp: current_active_user_def Depends_def HTTPBearer_def)
next
  fix tok e
  assume a: "header = Bearer tok \<and> verify_token cfg now tok = Inl e"
  then show "current_active_user cfg db now header = Inl e"
    by (simp add: current_active_user_Bearer)
  from a show "e = HTTPException 401 ''Token invalido o expirado'' [(''WWW-Authenticate'', ''Bearer'')]"
    by (auto dest: verify_token_Inl)
next
  fix tok payload
  assume "header = Bearer tok \<and> verify_token cfg now tok = Inr payload \<and>
      entries payload ''sub'' = None"
  then show "current_active_user cfg db now header = Inl (HTTPException 401 detail_no_sub [])"
    by (simp add: current_active_user_Bearer)
next
  fix tok payload name
  assume "header = Bearer tok \<and> verify_token cfg now tok = Inr payload \<and>
      entries payload ''sub'' = Some name \<and> get_user_by_username db name = None"
  then show "current_active_user cfg db now header =
        Inl (HTTPException 401 ''Usuario no encontrado'' [])"
    by (simp add: current_active_user_Bearer)
next
  fix tok payload name user
  assume "header = Bearer tok \<and> verify_token cfg now tok = Inr payload \<and>
      entries payload ''sub'' = Some name \<and> get_user_by_username db name = Some user \<and>
      \<not> Usuario.is_active user"
  then show "current_active_user cfg db now header = Inl (HTTPException 400 ''Usuario inactivo'' [])"
    by (simp add: current_active_user_Bearer)
next
  fix user
  show "(current_active_user cfg db now header = Inr user) =
      (\<exists>tok payload name. header = Bearer tok \<and> verify_token cfg now tok = Inr payload \<and>
         entries payload ''sub'' = Some name \<and> get_user_by_username db name = Some user \<and>
         Usuario.is_active user)"
  proof (cases header)
    case Absent
    then show ?thesis by (simp add: current_active_user_def Depends_def HTTPBearer_def)
  next
    case (Unparsable s)
    then show ?thesis by (simp add: current_active_user_def Depends_def HTTPBearer_def)
  next
    case (Bearer tok)
    then show ?thesis
      by (auto simp: current_active_user_Bearer split: sum.splits option.splits if_splits)
  qed
next
  fix e and handler :: "Usuario \<Rightarrow> server \<Rightarrow> (exn + 'r) \<times> server"
  assume "current_active_user cfg db now header = Inl e"
  then show "protected cfg now handler header db = (Inl e, db)"
    by (simp add: protected_def)
qed

theorem authorization_order_witness:
  "current_active_user example_config example_server 2000 Absent = Inl MissingCredential \<and>
   current_active_user example_config example_server 2000 (Bearer (Garbage ''abc'')) =
     Inl (HTTPException 401 ''Token invalido o expirado'' [(''WWW-Authenticate'', ''Bearer'')]) \<and>
   current_active_user example_config example_server 2000 (Bearer example_token) = Inr alice \<and>
   protected example_config 2000 get_current_user_info Absent example_server =
     (Inl MissingCredential, example_server)"
proof -
  note ord = authorization_order [where ?'r = UsuarioResponse, of _ example_config example_server 2000]
  have v: "verify_token example_config 2000 example_token =
      Inr \<lparr>exp_claim = Some 2800, entries = [''sub'' \<mapsto> ''alice'']\<rparr>"
    by (simp add: verify_token_def jwt_decode_def example_config_def example_token_def ALGORITHM_def)
  have g: "verify_token example_config 2000 (Garbage ''abc'' :: string token) =
      Inl (HTTPException 401 ''Token invalido o expirado'' [(''WWW-Authenticate'', ''Bearer'')])"
    by (simp add: verify_token_def jwt_decode_def HTTP_401_UNAUTHORIZED_def)
  have a: "get_user_by_username example_server ''alice'' = Some alice"
    by (simp add: get_user_by_username_def example_server_def alice_def bob_def)
  have act: "Usuario.is_active alice" by (simp add: alice_def)
  have 1: "current_active_user example_config example_server 2000 Absent = Inl MissingCredential"
    using ord [of Absent] by simp
  have 2: "current_active_user example_config example_server 2000 (Bearer (Garbage ''abc'')) =
     Inl (HTTPException 401 ''Token invalido o expirado'' [(''WWW-Authenticate'', ''Bearer'')])"
    using ord [of "Bearer (Garbage ''abc'')"] g by simp
  have 3: "current_active_user example_config example_server 2000 (Bearer example_token) = Inr alice"
    using ord [of "Bearer example_token"] v a act by simp
  have 4: "protected example_config 2000 get_current_user_info Absent example_server =
     (Inl MissingCredential, example_server)"
    using ord [of Absent] 1 by blast
  from 1 2 3 4 show ?thesis by simp
qed

section \<open>The token codec\<close>

text \<open>
  Claim C3. A token made by \<^verbatim>\<open>create_access_token\<close> from a claim set and a
  time-to-live, and validated by \<^verbatim>\<open>verify_token\<close> at a clock reading before its
  expiration instant, yields the claim set given at issuance with the expiration claim
  set: every other key has the value it had. (The expiration instant is the one
  \<^verbatim>\<open>create_access_token\<close> computes; for an absent or a zero time-to-live that is
  the configured default.)
\<close>

theorem token_roundtrip:
  "now' < expire cfg now ttl \<Longrightarrow>
   verify_token cfg now' (fst (create_access_token cfg now h data ttl)) =
     Inr ((objects h data)\<lparr>exp_claim := Some (expire cfg now ttl)\<rparr>) \<and>
   (\<forall>payload. verify_token cfg now' (fst (create_access_token cfg now h data ttl)) = Inr payload
      \<longrightarrow> entries payload = entries (objects h data) \<and>
          exp_claim payload = Some (expire cfg now ttl))"
  by (simp add: create_access_token_token verify_token_JWT)

theorem token_roundtrip_witness:
  "(2799::int) < expire example_config 1000 (Some 0) \<and>
   verify_token example_config 2799
     (fst (create_access_token example_config 1000 example_heap 0 (Some 0))) =
     Inr \<lparr>exp_claim = Some 2800, entries = [''sub'' \<mapsto> ''alice'']\<rparr>"
proof -
  have e: "expire example_config 1000 (Some 0) = 2800"
    by (simp add: expire_def example_config_def timedelta_minutes_def)
  have o: "objects example_heap 0 = \<lparr>exp_claim = None, entries = [''sub'' \<mapsto> ''alice'']\<rparr>"
    by (simp add: example_heap_def)
  have h: "(2799::int) < expire example_config 1000 (Some 0)"
    by (simp add: e)
  from token_roundtrip [OF h, of example_heap 0] e o h show ?thesis
    by simp
qed

text \<open>
  Claim C4. At every clock reading at or after the expiration instant of a token,
  \<^verbatim>\<open>verify_token\<close> fails, always with the same exception (status 401, "Token invalido
  o expirado", which is how the program reports an invalid and an expired token alike);
  for a well-signed token the failure of the codec behind it is \<open>ExpiredToken\<close>. At
  every clock reading before the expiration instant of a well-signed token, validation
  succeeds and returns the claim set.
\<close>

theorem verify_token_expiry:
  "(\<forall>alg payload k e. tok = JWT alg payload k \<and> exp_claim payload = Some e \<and> e \<le> now \<longrightarrow>
      verify_token cfg now tok =
        Inl (HTTPException 401 ''Token invalido o expirado'' [(''WWW-Authenticate'', ''Bearer'')])) \<and>
   (\<forall>payload e. tok = JWT ALGORITHM payload (SECRET_KEY cfg) \<and> exp_claim payload = Some e \<longrightarrow>
      (e \<le> now \<longrightarrow> jwt_decode now tok (SECRET_KEY cfg) [ALGORITHM] = Inl ExpiredToken) \<and>
      (now < e \<longrightarrow> verify_token cfg now tok = Inr payload))"
  by (auto simp: verify_token_JWT jwt_decode_def)

theorem verify_token_expiry_witness:
  "verify_token example_config 2800 example_token =
     Inl (HTTPException 401 ''Token invalido o expirado'' [(''WWW-Authenticate'', ''Bearer'')]) \<and>
   jwt_decode 2800 example_token (SECRET_KEY example_config) [ALGORITHM] = Inl ExpiredToken \<and>
   verify_token example_config 2799 example_token =
     Inr \<lparr>exp_claim = Some 2800, entries = [''sub'' \<mapsto> ''alice'']\<rparr>"
proof -
  have t: "example_token =
      JWT ALGORITHM \<lparr>exp_claim = Some 2800, entries = [''sub'' \<mapsto> ''alice'']\<rparr>
        (SECRET_KEY example_config)"
    by (simp add: example_token_def ALGORITHM_def example_config_def)
  have x: "exp_claim \<lparr>exp_claim = Some (2800::int), entries = [''sub'' \<mapsto> ''alice'']\<rparr> = Some 2800"
    by simp
  from verify_token_expiry [of example_token 2800 example_config] t x
  have 1: "verify_token example_config 2800 example_token =
     Inl (HTTPException 401 ''Token invalido o expirado'' [(''WWW-Authenticate'', ''Bearer'')])"
    by fastforce
  from verify_token_expiry [of example_token 2800 example_config] t x
  have 2: "jwt_decode 2800 example_token (SECRET_KEY example_config) [ALGORITHM] = Inl ExpiredToken"
    by fastforce
  from verify_token_expiry [of example_token 2799 example_config] t x
  have 3: "verify_token example_config 2799 example_token =
     Inr \<lparr>exp_claim = Some 2800, entries = [''sub'' \<mapsto> ''alice'']\<rparr>"
    by fastforce
  from 1 2 3 show ?thesis by simp
qed

text \<open>
  Claim C5. A token signed with a key other than the server's secret key fails
  \<^verbatim>\<open>verify_token\<close>: the codec fails with \<open>InvalidToken\<close>, reported as status 401.
  Hence a token issued under one secret key fails validation, at every clock reading,
  on a server whose secret key has been changed.
\<close>

theorem verify_token_other_key:
  "(k \<noteq> SECRET_KEY cfg' \<longrightarrow>
      jwt_decode now' (jwt_encode payload k alg) (SECRET_KEY cfg') [ALGORITHM] = Inl InvalidToken \<and>
      verify_token cfg' now' (jwt_encode payload k alg) =
        Inl (HTTPException 401 ''Token invalido o expirado'' [(''WWW-Authenticate'', ''Bearer'')])) \<and>
   (SECRET_KEY cfg' \<noteq> SECRET_KEY cfg \<longrightarrow>
      verify_token cfg' now' (fst (create_access_token cfg now h data ttl)) =
        Inl (HTTPException 401 ''Token invalido o expirado'' [(''WWW-Authenticate'', ''Bearer'')]))"
  by (auto simp: create_access_token_token verify_token_JWT jwt_encode_def jwt_decode_def)

theorem verify_token_other_key_witness:
  "''k1'' \<noteq> SECRET_KEY rotated_config \<and>
   verify_token rotated_config 2000 example_token =
     Inl (HTTPException 401 ''Token invalido o expirado'' [(''WWW-Authenticate'', ''Bearer'')]) \<and>
   verify_token rotated_config 1001
     (fst (create_access_token example_config 1000 example_heap 0 None)) =
     Inl (HTTPException 401 ''Token invalido o expirado'' [(''WWW-Authenticate'', ''Bearer'')])"
proof -
  have k: "''k1'' \<noteq> SECRET_KEY rotated_config"
    by (simp add: rotated_config_def)
  have k': "SECRET_KEY rotated_config \<noteq> SECRET_KEY example_config"
    by (simp add: rotated_config_def example_config_def)
  have t: "example_token =
      jwt_encode \<lparr>exp_claim = Some 2800, entries = [''sub'' \<mapsto> ''alice'']\<rparr> ''k1'' ''HS256''"
    by (simp add: example_token_def jwt_encode_def)
  note other = verify_token_other_key [where k = "''k1''" and cfg' = rotated_config
      and payload = "\<lparr>exp_claim = Some 2800, entries = [''sub'' \<mapsto> ''alice'']\<rparr>"
      and alg = "''HS256''" and cfg = example_config and h = example_heap and data = 0
      and ttl = None and now = 1000]
  from other [of 2000] k t
  have 1: "verify_token rotated_config 2000 example_token =
     Inl (HTTPException 401 ''Token invalido o expirado'' [(''WWW-Authenticate'', ''Bearer'')])"
    by simp
  from other [of 1001] k'
  have 2: "verify_token rotated_config 1001
     (fst (create_access_token example_config 1000 example_heap 0 None)) =
     Inl (HTTPException 401 ''Token invalido o expirado'' [(''WWW-Authenticate'', ''Bearer'')])"
    by blast
  from k 1 2 show ?thesis by simp
qed

section \<open>Deactivated users\<close>

text \<open>
  Claim C6. Let a token be issued to a user by \<^verbatim>\<open>/login\<close>. In any later state of the
  server in which that user's row is inactive, and at any clock reading before the
  token expires, an authorization attempt with the token fails with status 400,
  "Usuario inactivo", although \<^verbatim>\<open>verify_token\<close> still accepts the token.
\<close>

theorem deactivated_user_rejected:
  assumes "login cfg ctx now data db = (Inr t, db1)"
    and "get_user_by_username db' (LoginRequest.username data) = Some u"
    and "\<not> Usuario.is_active u"
    and "now' < now + timedelta_minutes (ACCESS_TOKEN_EXPIRE_MINUTES cfg)"
  shows "current_active_user cfg db' now' (Bearer (access_token t)) =
           Inl (HTTPException 400 ''Usuario inactivo'' []) \<and>
         (\<exists>payload. verify_token cfg now' (access_token t) = Inr payload)"
  using assms(2-4) login_Inr [OF assms(1)]
  by (simp add: current_active_user_Bearer verify_token_JWT)

theorem deactivated_user_rejected_witness:
  "current_active_user example_config deactivated_server 2000
     (Bearer (access_token
        (projr (fst (login example_config example_context 1000 alice_login example_server))))) =
     Inl (HTTPException 400 ''Usuario inactivo'' [])"
proof -
  have l: "login example_config example_context 1000 alice_login example_server =
      (Inr \<lparr>access_token = example_token, token_type = ''bearer''\<rparr>,
       example_server\<lparr>log := [''Intento de login para usuario: alice'',
                                ''Login exitoso para usuario: alice'']\<rparr>)"
    by (simp add: login_def authenticate_user_def get_user_by_username_def verify_password_def
        example_server_def example_context_def example_config_def alice_login_def alice_def
        bob_def logger_def new_dict_def create_access_token_def dict_copy_def
        dict_update_exp_def jwt_encode_def expire_def timedelta_minutes_def ALGORITHM_def
        example_token_def Let_def)
  have u: "get_user_by_username deactivated_server (LoginRequest.username alice_login) =
      Some (alice\<lparr>Usuario.is_active := False\<rparr>)"
    by (simp add: get_user_by_username_def deactivated_server_def alice_login_def alice_def)
  have n: "\<not> Usuario.is_active (alice\<lparr>Usuario.is_active := False\<rparr>)" by simp
  have t: "(2000::int) < 1000 + timedelta_minutes (ACCESS_TOKEN_EXPIRE_MINUTES example_config)"
    by (simp add: timedelta_minutes_def example_config_def)
  from deactivated_user_rejected [OF l u n t] l show ?thesis by simp
qed

section \<open>The password wrappers\<close>

text \<open>
  \<^verbatim>\<open>verify_password\<close> on a hash string that the password context does not identify:
  the exception of the context reaches the caller; no boolean is returned.
\<close>

theorem verify_password_raises:
  "verify_password example_context ''secret1'' ''plaintext'' = Inl ''hash could not be identified''"
  by (simp add: verify_password_def example_context_def)

text \<open>
  Claim C7, as the program has it. \<^verbatim>\<open>verify_password\<close> has no exception handling of
  its own: it returns a boolean exactly when \<^verbatim>\<open>pwd_context.verify\<close> returns that
  boolean, and it raises exactly the exception that \<^verbatim>\<open>pwd_context.verify\<close> raises.
\<close>

theorem verify_password_delegates:
  "((verify_password ctx plain hashed = Inr b) = (ctx_verify ctx plain hashed = Inr b)) \<and>
   ((verify_password ctx plain hashed = Inl msg) = (ctx_verify ctx plain hashed = Inl msg))"
  by (simp add: verify_password_def)

theorem verify_password_delegates_witness:
  "verify_password example_context ''secret1'' ''$2b$zzsecret1'' = Inr True"
proof -
  have "ctx_verify example_context ''secret1'' ''$2b$zzsecret1'' = Inr True"
    by (simp add: example_context_def)
  with verify_password_delegates [of example_context "''secret1''" "''$2b$zzsecret1''" True]
  show ?thesis by simp
qed

section \<open>Registration\<close>

text \<open>
  Claim C9. A request to \<^verbatim>\<open>/register\<close> whose password has fewer than 6 characters is
  rejected by the validation of the body, whatever the table holds and whatever the
  password context does: \<^verbatim>\<open>register\<close> is not entered, so nothing is logged, looked
  up, hashed or inserted, and the state of the server is unchanged.
\<close>

theorem post_register_short_password:
  "length (UsuarioCreate.password body) < 6 \<Longrightarrow>
   post_register ctx salt body db = (Inl RequestValidationError, db)"
  by (simp add: post_register_def UsuarioCreate_validate_def)

theorem post_register_short_password_witness:
  "length (UsuarioCreate.password short_body) < 6 \<and>
   post_register example_context ''ab'' short_body example_server =
     (Inl RequestValidationError, example_server)"
proof -
  have l: "length (UsuarioCreate.password short_body) < 6" by (simp add: short_body_def)
  from post_register_short_password [OF l] l show ?thesis by simp
qed

section \<open>The caller's dictionary\<close>

text \<open>
  Claim C10. \<^verbatim>\<open>create_access_token\<close> leaves the caller's dictionary as it was: the
  expiration claim is written to the copy, a new object, so the object at the address
  passed in, and every other object allocated before the call, holds after the call
  what it held before.
\<close>

theorem create_access_token_frame:
  "data < fresh h \<Longrightarrow>
   objects (snd (create_access_token cfg now h data ttl)) data = objects h data \<and>
   (\<forall>r < fresh h. objects (snd (create_access_token cfg now h data ttl)) r = objects h r)"
  by (simp add: create_access_token_heap)

theorem create_access_token_frame_witness:
  "(0::nat) < fresh example_heap \<and>
   objects (snd (create_access_token example_config 1000 example_heap 0 None)) 0 =
     \<lparr>exp_claim = None, entries = [''sub'' \<mapsto> ''alice'']\<rparr>"
proof -
  have f: "(0::nat) < fresh example_heap" by (simp add: example_heap_def)
  have o: "objects example_heap 0 = \<lparr>exp_claim = None, entries = [''sub'' \<mapsto> ''alice'']\<rparr>"
    by (simp add: example_heap_def)
  from create_access_token_frame [OF f, of example_config 1000 None] f o show ?thesis
    by simp
qed

end
